theory Spec2Isabelle
  imports Main
begin

section \<open>JavaScript values\<close>

text \<open>
  The value \<open>JSON.parse\<close> returns. A number is modelled by its integer value (the ids
  of the table are integers; \<open>NaN\<close> never comes out of \<open>JSON.parse\<close>). An object is the
  list of its members in the order of the text; where a key is repeated the last member
  wins, as in \<open>JSON.parse\<close>. A string is the list of its characters, and its length the
  number of them (JavaScript counts UTF-16 units, which is the same number for ASCII text).
\<close>

datatype json =
    JNull
  | JBool bool
  | JNum int
  | JStr string
  | JArr "json list"
  | JObj "(string \<times> json) list"

text \<open>A JavaScript value that may be \<open>undefined\<close>: \<open>None\<close> is \<open>undefined\<close>.\<close>

type_synonym jsval = "json option"

text \<open>
  \<open>!x\<close> is true for \<open>undefined\<close>, \<open>null\<close>, \<open>false\<close>, \<open>0\<close> and the empty string, and false
  for every other value, an empty array or object included.
\<close>

fun truthy :: "jsval \<Rightarrow> bool" where
  "truthy None = False"
| "truthy (Some JNull) = False"
| "truthy (Some (JBool b)) = b"
| "truthy (Some (JNum n)) = (n \<noteq> 0)"
| "truthy (Some (JStr s)) = (s \<noteq> [])"
| "truthy (Some (JArr xs)) = True"
| "truthy (Some (JObj kvs)) = True"

text \<open>\<open>x || null\<close>\<close>

fun or_null :: "jsval \<Rightarrow> json" where
  "or_null None = JNull"
| "or_null (Some x) = (if truthy (Some x) then x else JNull)"

datatype error =
    InvalidJSON
  | StreamError
  | TypeError
  | BcryptError
  | DupEntry
  | DataTooLong

text \<open>
  \<open>const { name, password } = value\<close>: destructuring \<open>null\<close> throws a TypeError; an
  object gives its own members; a number, boolean, string or array gives \<open>undefined\<close> for
  each of the keys the handlers read (\<open>name\<close>, \<open>password\<close>, \<open>email\<close>, \<open>id\<close>), none of
  which is a property of their prototypes.
\<close>

fun destructure :: "json \<Rightarrow> error + (string \<Rightarrow> jsval)" where
  "destructure JNull = Inl TypeError"
| "destructure (JObj kvs) = Inr (map_of (rev kvs))"
| "destructure _ = Inr (\<lambda>k. None)"

text \<open>
  \<open>x.length\<close>: a TypeError on \<open>undefined\<close> and \<open>null\<close>, the number of characters of a
  string and of elements of an array, the member \<open>length\<close> of an object, and \<open>undefined\<close>
  on a number or boolean.
\<close>

fun dot_length :: "jsval \<Rightarrow> error + jsval" where
  "dot_length None = Inl TypeError"
| "dot_length (Some JNull) = Inl TypeError"
| "dot_length (Some (JStr s)) = Inr (Some (JNum (int (length s))))"
| "dot_length (Some (JArr xs)) = Inr (Some (JNum (int (length xs))))"
| "dot_length (Some (JObj kvs)) = Inr (map_of (rev kvs) ''length'')"
| "dot_length (Some (JBool b)) = Inr None"
| "dot_length (Some (JNum n)) = Inr None"

text \<open>
  \<open>x < k\<close> for a number \<open>k\<close>: \<open>undefined\<close> converts to \<open>NaN\<close> and every comparison with
  it is false; \<open>null\<close> converts to 0, \<open>false\<close> to 0 and \<open>true\<close> to 1. The conversion of a
  string, array or object to a number is not modelled: the result is \<open>None\<close> there.
\<close>

fun less_than :: "jsval \<Rightarrow> int \<Rightarrow> bool option" where
  "less_than None k = Some False"
| "less_than (Some (JNum n)) k = Some (n < k)"
| "less_than (Some JNull) k = Some (0 < k)"
| "less_than (Some (JBool b)) k = Some ((if b then 1 else 0) < k)"
| "less_than (Some (JStr s)) k = None"
| "less_than (Some (JArr xs)) k = None"
| "less_than (Some (JObj kvs)) k = None"

section \<open>Requests and responses\<close>

text \<open>
  What \<open>parseBody\<close> sees of the request stream: an \<open>error\<close> event before the end, a
  text that \<open>JSON.parse\<close> rejects (the empty text is one), or a text that it parses,
  given by the value parsed.
\<close>

datatype payload = Broken | NotJSON | Parses json

record request =
  req_method :: string
  pathname :: string
  payload :: payload

definition parseBody :: "request \<Rightarrow> error + json" where
  "parseBody req =
     (case payload req of
        Broken \<Rightarrow> Inl StreamError
      | NotJSON \<Rightarrow> Inl InvalidJSON
      | Parses v \<Rightarrow> Inr v)"

text \<open>
  The body of a response: \<open>res.end(JSON.stringify(data))\<close> or \<open>res.end(data)\<close>.
\<close>

datatype body = Stringified json | Verbatim json

record response =
  status :: nat
  headers :: "(string \<times> string) list"
  body :: body

definition sendResponse :: "nat \<Rightarrow> json \<Rightarrow> string \<Rightarrow> response" where
  "sendResponse statusCode data contentType =
     \<lparr> status = statusCode,
       headers =
         [(''Content-Type'', contentType),
          (''Access-Control-Allow-Origin'', ''*''),
          (''Access-Control-Allow-Methods'', ''GET, POST, PUT, DELETE, OPTIONS''),
          (''Access-Control-Allow-Headers'', ''Content-Type, Authorization'')],
       body =
         (if contentType = ''application/json'' then Stringified data else Verbatim data) \<rparr>"

text \<open>The default of the parameter \<open>contentType\<close>.\<close>

definition sendJson :: "nat \<Rightarrow> json \<Rightarrow> response" where
  "sendJson statusCode data = sendResponse statusCode data ''application/json''"

text \<open>\<open>{ success: false, error: msg }\<close>\<close>

definition failure :: "string \<Rightarrow> json" where
  "failure msg = JObj [(''success'', JBool False), (''error'', JStr msg)]"

text \<open>What every \<open>catch\<close> block of a handler sends.\<close>

definition internal_server_error :: response where
  "internal_server_error = sendJson 500 (failure ''Internal server error'')"

section \<open>bcrypt\<close>

text \<open>
  The library is a parameter: \<open>bhash salt data\<close> is the string \<open>bcrypt.hash(data, 12)\<close>
  returns when it draws \<open>salt\<close>, and \<open>bcompare data hash\<close> what
  \<open>bcrypt.compare(data, hash)\<close> returns. Both reject data that is not a string
  ("data must be a string or Buffer"), and the promise they return is then rejected.
\<close>

record bcrypt =
  bhash :: "string \<Rightarrow> string \<Rightarrow> string"
  bcompare :: "string \<Rightarrow> string \<Rightarrow> bool"

fun bcrypt_hash :: "bcrypt \<Rightarrow> string \<Rightarrow> jsval \<Rightarrow> error + string" where
  "bcrypt_hash bc salt (Some (JStr s)) = Inr (bhash bc salt s)"
| "bcrypt_hash bc salt _ = Inl BcryptError"

fun bcrypt_compare :: "bcrypt \<Rightarrow> jsval \<Rightarrow> string \<Rightarrow> error + bool" where
  "bcrypt_compare bc (Some (JStr s)) h = Inr (bcompare bc s h)"
| "bcrypt_compare bc _ h = Inl BcryptError"

section \<open>The table \<open>user\<close>\<close>

text \<open>
  \<^verbatim>\<open>CREATE TABLE IF NOT EXISTS user (
    id INT AUTO_INCREMENT PRIMARY KEY,
    name VARCHAR(100) NOT NULL UNIQUE,
    password VARCHAR(255) NOT NULL,
    email VARCHAR(100),
    created_at TIMESTAMP DEFAULT CURRENT_TIMESTAMP)\<close>

  A row has the five columns (the fields carry the prefix \<open>u_\<close>, since \<open>id\<close> is a
  constant of HOL). The store is the rows in the order the server returns them, the
  next value of the AUTO_INCREMENT counter, and two settings of the server that decide
  what the statements do: whether the SQL mode is strict (a value longer than its
  column is then an error, and is cut to the width of the column otherwise), and the
  collation of the column \<open>name\<close>, given as the function that maps a string to its
  normal form: two names are equal for \<open>=\<close> and for the UNIQUE index when their normal
  forms are (the identity for a binary collation, lower-casing for a case-insensitive one).
  The upper bound of INT is not modelled, nor a statement that fails because the server
  is out of reach.
\<close>

record user =
  u_id :: nat
  u_name :: string
  u_password :: string
  u_email :: "string option"
  u_created_at :: string

record db =
  rows :: "user list"
  next_id :: nat
  strict_mode :: bool
  collation :: "string \<Rightarrow> string"

definition name_eq :: "db \<Rightarrow> string \<Rightarrow> string \<Rightarrow> bool" where
  "name_eq d a b = (collation d a = collation d b)"

definition varchar :: "nat \<Rightarrow> db \<Rightarrow> string \<Rightarrow> error + string" where
  "varchar w d s =
     (if length s \<le> w then Inr s
      else if strict_mode d then Inl DataTooLong
      else Inr (take w s))"

text \<open>\<^verbatim>\<open>SELECT id FROM user WHERE name = ?\<close>\<close>

definition select_id_by_name :: "string \<Rightarrow> db \<Rightarrow> nat list" where
  "select_id_by_name n d = map u_id (filter (\<lambda>u. name_eq d (u_name u) n) (rows d))"

text \<open>\<^verbatim>\<open>SELECT id, password FROM user WHERE name = ?\<close>\<close>

definition select_id_password_by_name :: "string \<Rightarrow> db \<Rightarrow> (nat \<times> string) list" where
  "select_id_password_by_name n d =
     map (\<lambda>u. (u_id u, u_password u)) (filter (\<lambda>u. name_eq d (u_name u) n) (rows d))"

text \<open>
  \<^verbatim>\<open>INSERT INTO user (name, password, email) VALUES (?, ?, ?)\<close>, at the time \<open>now\<close>.
  The result is \<open>insertId\<close> and the new store. A statement that fails leaves the store
  as it was (a counter that a failed insert has advanced is not modelled).
\<close>

definition insert_user ::
  "string \<Rightarrow> string \<Rightarrow> string option \<Rightarrow> string \<Rightarrow> db \<Rightarrow> error + (nat \<times> db)" where
  "insert_user n h e now d =
     (case varchar 100 d n of
        Inl err \<Rightarrow> Inl err
      | Inr n' \<Rightarrow>
     (case varchar 255 d h of
        Inl err \<Rightarrow> Inl err
      | Inr h' \<Rightarrow>
     (case (case e of None \<Rightarrow> Inr None
                    | Some a \<Rightarrow> (case varchar 100 d a of Inl err \<Rightarrow> Inl err
                                                        | Inr a' \<Rightarrow> Inr (Some a'))) of
        Inl err \<Rightarrow> Inl err
      | Inr e' \<Rightarrow>
          if \<exists>u \<in> set (rows d). name_eq d (u_name u) n' then Inl DupEntry
          else Inr (next_id d,
                    d\<lparr> rows := rows d @
                         [\<lparr> u_id = next_id d, u_name = n', u_password = h',
                            u_email = e', u_created_at = now \<rparr>],
                       next_id := next_id d + 1 \<rparr>))))"

text \<open>\<^verbatim>\<open>SELECT id, name, email, created_at FROM user\<close>\<close>

definition row_json :: "user \<Rightarrow> json" where
  "row_json u =
     JObj [(''id'', JNum (int (u_id u))),
           (''name'', JStr (u_name u)),
           (''email'', (case u_email u of None \<Rightarrow> JNull | Some a \<Rightarrow> JStr a)),
           (''created_at'', JStr (u_created_at u))]"

definition select_users :: "db \<Rightarrow> json list" where
  "select_users d = map row_json (rows d)"

text \<open>
  \<^verbatim>\<open>DELETE FROM user WHERE id = ?\<close>: \<open>affectedRows\<close> and the new store.
\<close>

definition delete_by_id :: "int \<Rightarrow> db \<Rightarrow> nat \<times> db" where
  "delete_by_id i d =
     (length (filter (\<lambda>u. int (u_id u) = i) (rows d)),
      d\<lparr> rows := filter (\<lambda>u. int (u_id u) \<noteq> i) (rows d) \<rparr>)"

text \<open>
  \<^verbatim>\<open>UPDATE user SET email = ? WHERE id = ?\<close>: \<open>affectedRows\<close> and the new store. The
  driver asks for the number of rows found, so a row whose email already has the new
  value counts. The new value is checked against the column when a row is written:
  with no row found there is no error.
\<close>

definition update_email_by_id :: "string \<Rightarrow> int \<Rightarrow> db \<Rightarrow> error + (nat \<times> db)" where
  "update_email_by_id e i d =
     (if \<not> (\<exists>u \<in> set (rows d). int (u_id u) = i) then Inr (0, d)
      else
        (case varchar 100 d e of
           Inl err \<Rightarrow> Inl err
         | Inr e' \<Rightarrow>
             Inr (length (filter (\<lambda>u. int (u_id u) = i) (rows d)),
                  d\<lparr> rows := map (\<lambda>u. if int (u_id u) = i then u\<lparr> u_email := Some e' \<rparr> else u)
                                 (rows d) \<rparr>)))"

text \<open>
  A parameter of a statement. The comparison of a column with a parameter of another
  type (a number against \<open>name\<close>, a string against \<open>id\<close>) goes through the conversions of
  the driver and of MySQL, which are not modelled: binding gives \<open>None\<close> there.
\<close>

fun bind_text :: "jsval \<Rightarrow> string option" where
  "bind_text (Some (JStr s)) = Some s"
| "bind_text _ = None"

fun bind_int :: "jsval \<Rightarrow> int option" where
  "bind_int (Some (JNum n)) = Some n"
| "bind_int _ = None"

fun bind_nullable_text :: "json \<Rightarrow> string option option" where
  "bind_nullable_text JNull = Some None"
| "bind_nullable_text (JStr s) = Some (Some s)"
| "bind_nullable_text _ = None"

section \<open>Route handlers\<close>

text \<open>
  A handler either sends a response and leaves a store, or is given a request outside
  the fragment modelled (\<open>Unmodelled\<close>: a field of a type whose conversion is not
  modelled has reached a comparison or a statement), or cannot be called at all (\<open>Crashed\<close>:
  the lookup in \<open>routes\<close> gave \<open>undefined\<close>).
\<close>

datatype outcome = Responds response db | Unmodelled | Crashed

text \<open>
  \<open>POST /register\<close>. The handler waits between its SELECT and its INSERT (for the
  result of the SELECT and for \<open>bcrypt.hash\<close>), and other requests run meanwhile:
  \<open>others\<close> is what they do to the store in that time, the identity when the handler
  runs alone. \<open>salt\<close> is the salt \<open>bcrypt.hash\<close> draws and \<open>now\<close> the CURRENT_TIMESTAMP
  of the insert.
\<close>

definition POST_register ::
  "(db \<Rightarrow> db) \<Rightarrow> bcrypt \<Rightarrow> string \<Rightarrow> string \<Rightarrow> request \<Rightarrow> db \<Rightarrow> outcome" where
  "POST_register others bc salt now req d =
     (case parseBody req of
        Inl err \<Rightarrow> Responds internal_server_error d
      | Inr parsed \<Rightarrow>
     (case destructure parsed of
        Inl err \<Rightarrow> Responds internal_server_error d
      | Inr field \<Rightarrow>
          let name = field ''name''; password = field ''password''; email = field ''email'' in
          if \<not> truthy name \<or> \<not> truthy password then
            Responds (sendJson 400 (failure ''Name and password required'')) d
          else
     (case dot_length password of
        Inl err \<Rightarrow> Responds internal_server_error d
      | Inr len \<Rightarrow>
     (case less_than len 6 of
        None \<Rightarrow> Unmodelled
      | Some True \<Rightarrow>
          Responds (sendJson 400 (failure ''Password must be at least 6 characters'')) d
      | Some False \<Rightarrow>
     (case bind_text name of
        None \<Rightarrow> Unmodelled
      | Some n \<Rightarrow>
          if length (select_id_by_name n d) > 0 then
            Responds (sendJson 409 (failure ''Username already exists'')) d
          else
            let d1 = others d in
     (case bcrypt_hash bc salt password of
        Inl err \<Rightarrow> Responds internal_server_error d1
      | Inr hashedPassword \<Rightarrow>
     (case bind_nullable_text (or_null email) of
        None \<Rightarrow> Unmodelled
      | Some e \<Rightarrow>
     (case insert_user n hashedPassword e now d1 of
        Inl err \<Rightarrow> Responds internal_server_error d1
      | Inr (insertId, d2) \<Rightarrow>
          Responds
            (sendJson 201
               (JObj [(''success'', JBool True),
                      (''message'', JStr ''Account created''),
                      (''userId'', JNum (int insertId))]))
            d2))))))))"

text \<open>\<open>POST /login\<close>\<close>

definition POST_login :: "bcrypt \<Rightarrow> request \<Rightarrow> db \<Rightarrow> outcome" where
  "POST_login bc req d =
     (case parseBody req of
        Inl err \<Rightarrow> Responds internal_server_error d
      | Inr parsed \<Rightarrow>
     (case destructure parsed of
        Inl err \<Rightarrow> Responds internal_server_error d
      | Inr field \<Rightarrow>
          let name = field ''name''; password = field ''password'' in
          if \<not> truthy name \<or> \<not> truthy password then
            Responds (sendJson 400 (failure ''Name and password required'')) d
          else
     (case bind_text name of
        None \<Rightarrow> Unmodelled
      | Some n \<Rightarrow>
     (case select_id_password_by_name n d of
        [] \<Rightarrow> Responds (sendJson 401 (failure ''Invalid credentials'')) d
      | user # _ \<Rightarrow>
     (case bcrypt_compare bc password (snd user) of
        Inl err \<Rightarrow> Responds internal_server_error d
      | Inr match \<Rightarrow>
          if \<not> match then
            Responds (sendJson 401 (failure ''Invalid credentials'')) d
          else
            Responds
              (sendJson 200
                 (JObj [(''success'', JBool True),
                        (''message'', JStr ''Login successful''),
                        (''userId'', JNum (int (fst user)))]))
              d)))))"

text \<open>\<open>GET /users\<close>\<close>

definition GET_users :: "db \<Rightarrow> outcome" where
  "GET_users d =
     Responds
       (sendJson 200 (JObj [(''success'', JBool True), (''users'', JArr (select_users d))]))
       d"

text \<open>\<open>DELETE /user\<close>\<close>

definition DELETE_user :: "request \<Rightarrow> db \<Rightarrow> outcome" where
  "DELETE_user req d =
     (case parseBody req of
        Inl err \<Rightarrow> Responds internal_server_error d
      | Inr parsed \<Rightarrow>
     (case destructure parsed of
        Inl err \<Rightarrow> Responds internal_server_error d
      | Inr field \<Rightarrow>
          let id = field ''id'' in
          if \<not> truthy id then Responds (sendJson 400 (failure ''User ID required'')) d
          else
     (case bind_int id of
        None \<Rightarrow> Unmodelled
      | Some i \<Rightarrow>
          let (affectedRows, d') = delete_by_id i d in
          if affectedRows = 0 then Responds (sendJson 404 (failure ''User not found'')) d'
          else
            Responds
              (sendJson 200 (JObj [(''success'', JBool True), (''message'', JStr ''User deleted'')]))
              d')))"

text \<open>\<open>PUT /user\<close>\<close>

definition PUT_user :: "request \<Rightarrow> db \<Rightarrow> outcome" where
  "PUT_user req d =
     (case parseBody req of
        Inl err \<Rightarrow> Responds internal_server_error d
      | Inr parsed \<Rightarrow>
     (case destructure parsed of
        Inl err \<Rightarrow> Responds internal_server_error d
      | Inr field \<Rightarrow>
          let id = field ''id''; email = field ''email'' in
          if \<not> truthy id \<or> \<not> truthy email then
            Responds (sendJson 400 (failure ''ID and new email required'')) d
          else
     (case bind_text email of
        None \<Rightarrow> Unmodelled
      | Some e \<Rightarrow>
     (case bind_int id of
        None \<Rightarrow> Unmodelled
      | Some i \<Rightarrow>
     (case update_email_by_id e i d of
        Inl err \<Rightarrow> Responds internal_server_error d
      | Inr (affectedRows, d') \<Rightarrow>
          if affectedRows = 0 then Responds (sendJson 404 (failure ''User not found'')) d'
          else
            Responds
              (sendJson 200 (JObj [(''success'', JBool True), (''message'', JStr ''Email updated'')]))
              d')))))"

text \<open>\<open>GET /\<close>: the template literal, line by line; the heading starts with an emoji,
  given by its seven bytes in UTF-8.\<close>

definition landing_html :: string where
  "landing_html =
     [CHR 0x0A] @
     ''      <html>'' @ [CHR 0x0A] @
     ''        <head><title>Body Garage</title></head>'' @ [CHR 0x0A] @
     ''        <body>'' @ [CHR 0x0A] @
     ''          <h1>'' @ [CHR 0xF0, CHR 0x9F, CHR 0x8F, CHR 0x8B, CHR 0xEF, CHR 0xB8, CHR 0x8F] @
       '' Welcome to Body Garage Server</h1>'' @ [CHR 0x0A] @
     ''          <p>Use Postman or frontend to access API routes.</p>'' @ [CHR 0x0A] @
     ''        </body>'' @ [CHR 0x0A] @
     ''      </html>'' @ [CHR 0x0A] @
     ''    ''"

definition GET_root :: "db \<Rightarrow> outcome" where
  "GET_root d = Responds (sendResponse 200 (JStr landing_html) ''text/html'') d"

text \<open>\<open>OPTIONS *\<close>\<close>

definition OPTIONS_any :: "db \<Rightarrow> outcome" where
  "OPTIONS_any d = Responds (sendResponse 200 (JStr '''') ''text/plain'') d"

section \<open>Routing\<close>

datatype handler = Preflight | Register | Login | Users | Delete | Update | Landing

definition routes :: "(string \<times> handler) list" where
  "routes =
     [(''OPTIONS *'', Preflight),
      (''POST /register'', Register),
      (''POST /login'', Login),
      (''GET /users'', Users),
      (''DELETE /user'', Delete),
      (''PUT /user'', Update),
      (''GET /'', Landing)]"

text \<open>
  \<open>routes[routeKey] || routes[`${method} *`] || routes['GET /']\<close>: a handler is a
  function, which is truthy, so \<open>||\<close> moves on exactly where the lookup is \<open>undefined\<close>.
\<close>

definition route :: "string \<Rightarrow> string \<Rightarrow> handler option" where
  "route m p =
     (case map_of routes (m @ '' '' @ p) of
        Some h \<Rightarrow> Some h
      | None \<Rightarrow>
     (case map_of routes (m @ '' *'') of
        Some h \<Rightarrow> Some h
      | None \<Rightarrow> map_of routes ''GET /''))"

fun handle ::
  "handler \<Rightarrow> (db \<Rightarrow> db) \<Rightarrow> bcrypt \<Rightarrow> string \<Rightarrow> string \<Rightarrow> request \<Rightarrow> db \<Rightarrow> outcome" where
  "handle Preflight others bc salt now req d = OPTIONS_any d"
| "handle Register others bc salt now req d = POST_register others bc salt now req d"
| "handle Login others bc salt now req d = POST_login bc req d"
| "handle Users others bc salt now req d = GET_users d"
| "handle Delete others bc salt now req d = DELETE_user req d"
| "handle Update others bc salt now req d = PUT_user req d"
| "handle Landing others bc salt now req d = GET_root d"

text \<open>The callback of \<open>http.createServer\<close>.\<close>

definition server ::
  "(db \<Rightarrow> db) \<Rightarrow> bcrypt \<Rightarrow> string \<Rightarrow> string \<Rightarrow> request \<Rightarrow> db \<Rightarrow> outcome" where
  "server others bc salt now req d =
     (case route (req_method req) (pathname req) of
        None \<Rightarrow> Crashed
      | Some h \<Rightarrow> handle h others bc salt now req d)"

section \<open>Startup\<close>

text \<open>
  The process while it starts: what it has logged and done so far, whether the table
  exists, whether it has exited and whether the server listens. What the store answers
  is given from outside: whether \<open>pool.getConnection()\<close> succeeds and whether the
  CREATE TABLE statement does.
\<close>

datatype event =
    Connected
  | ConnectionFailed
  | Exit nat
  | TablesInitialized
  | InitializationFailed
  | Listening

record process =
  trace :: "event list"
  table_exists :: bool
  exited :: bool
  listening :: bool

record store_answers =
  connects :: bool
  creates :: bool

definition testConnection :: "store_answers \<Rightarrow> process \<Rightarrow> process" where
  "testConnection a p =
     (if connects a then p\<lparr> trace := trace p @ [Connected] \<rparr>
      else p\<lparr> trace := trace p @ [ConnectionFailed, Exit 1], exited := True \<rparr>)"

definition initDatabase :: "store_answers \<Rightarrow> process \<Rightarrow> process" where
  "initDatabase a p =
     (if creates a then p\<lparr> trace := trace p @ [TablesInitialized], table_exists := True \<rparr>
      else p\<lparr> trace := trace p @ [InitializationFailed] \<rparr>)"

definition listen :: "process \<Rightarrow> process" where
  "listen p = p\<lparr> trace := trace p @ [Listening], listening := True \<rparr>"

text \<open>
  The function called at the end of the file. \<open>process.exit(1)\<close> ends the process: nothing
  after it runs.
\<close>

definition startup :: "store_answers \<Rightarrow> process \<Rightarrow> process" where
  "startup a p =
     (let p1 = testConnection a p in
      if exited p1 then p1
      else listen (initDatabase a p1))"

text \<open>The process before the function runs, given whether the table is already there.\<close>

definition boot :: "bool \<Rightarrow> process" where
  "boot t = \<lparr> trace = [], table_exists = t, exited = False, listening = False \<rparr>"

section \<open>Reading an outcome\<close>

fun status_of :: "outcome \<Rightarrow> nat option" where
  "status_of (Responds r d) = Some (status r)"
| "status_of _ = None"

fun body_of :: "outcome \<Rightarrow> body option" where
  "body_of (Responds r d) = Some (body r)"
| "body_of _ = None"

section \<open>Stores the server can reach\<close>

text \<open>
  What the PRIMARY KEY and the UNIQUE index maintain: no two rows share an id, no two
  rows have names that are equal under the collation; and every id is positive and
  below the counter, which starts at 1.
\<close>

definition wf_db :: "db \<Rightarrow> bool" where
  "wf_db d =
     (distinct (map u_id (rows d)) \<and>
      distinct (map (\<lambda>u. collation d (u_name u)) (rows d)) \<and>
      0 < next_id d \<and>
      (\<forall>u \<in> set (rows d). 0 < u_id u \<and> u_id u < next_id d))"

text \<open>
  The table just created, on a server in strict mode (the default of MySQL) with a
  binary collation.
\<close>

definition fresh_db :: db where
  "fresh_db = \<lparr> rows = [], next_id = 1, strict_mode = True, collation = (\<lambda>s. s) \<rparr>"

text \<open>
  An instance of the parameter \<open>bcrypt\<close> for evaluating the theorems at concrete inputs.
  It is not bcrypt: it has the layout of its output (a prefix of 7 characters and a salt
  of 22) and puts the data where the digest would be, so that it compares the way bcrypt
  does on data of at most 72 bytes.
\<close>

definition sample_bcrypt :: bcrypt where
  "sample_bcrypt =
     \<lparr> bhash = (\<lambda>salt s. ''$2b$12$'' @ salt @ s),
       bcompare = (\<lambda>s h. drop 29 h = s) \<rparr>"

definition sample_salt :: string where
  "sample_salt = ''N9qo8uLOickgx2ZMRZoMye''"

text \<open>The store after \<open>alice\<close> has registered on \<open>fresh_db\<close>.\<close>

definition alice_db :: db where
  "alice_db =
     fresh_db\<lparr> rows := [\<lparr> u_id = 1, u_name = ''alice'',
                           u_password = bhash sample_bcrypt sample_salt ''secret1'',
                           u_email = None, u_created_at = ''2024-01-01 00:00:00'' \<rparr>],
               next_id := 2 \<rparr>"

text \<open>A response with a status from 400 to 499.\<close>

definition client_error :: "outcome \<Rightarrow> bool" where
  "client_error out = (case status_of out of Some s \<Rightarrow> 400 \<le> s \<and> s < 500 | None \<Rightarrow> False)"

text \<open>A second row, and the store with both.\<close>

definition bob_row :: user where
  "bob_row =
     \<lparr> u_id = 2, u_name = ''bob'',
       u_password = bhash sample_bcrypt sample_salt ''hunter22'',
       u_email = Some ''bob@example.org'', u_created_at = ''2024-01-02 00:00:00'' \<rparr>"

definition alice_bob_db :: db where
  "alice_bob_db = alice_db\<lparr> rows := rows alice_db @ [bob_row], next_id := 3 \<rparr>"

text \<open>Requests with the bodies of the interface, for evaluating the theorems.\<close>

definition register_request :: "string \<Rightarrow> string \<Rightarrow> request" where
  "register_request n p =
     \<lparr> req_method = ''POST'', pathname = ''/register'',
       payload = Parses (JObj [(''name'', JStr n), (''password'', JStr p)]) \<rparr>"

definition login_request :: "string \<Rightarrow> string \<Rightarrow> request" where
  "login_request n p =
     \<lparr> req_method = ''POST'', pathname = ''/login'',
       payload = Parses (JObj [(''name'', JStr n), (''password'', JStr p)]) \<rparr>"

definition delete_request :: "int \<Rightarrow> request" where
  "delete_request i =
     \<lparr> req_method = ''DELETE'', pathname = ''/user'', payload = Parses (JObj [(''id'', JNum i)]) \<rparr>"


text \<open>
  What a concurrent registration of \<open>alice\<close> does to the store when its INSERT runs
  between the SELECT and the INSERT of another one.
\<close>

definition rival :: "db \<Rightarrow> db" where
  "rival d =
     (case insert_user ''alice'' (bhash sample_bcrypt sample_salt ''hunter22'') None
             ''2024-01-01 00:00:00'' d of
        Inl err \<Rightarrow> d
      | Inr (i, d') \<Rightarrow> d')"




section \<open>Routing: which handler a request reaches\<close>

text \<open>
  A key of \<open>routes\<close> has one space, between the method and the path, so the key built
  from a request equals it only when both parts do.
\<close>

lemma key_split:
  "CHR '' '' \<notin> set a \<Longrightarrow> CHR '' '' \<notin> set b \<Longrightarrow>
   (m @ CHR '' '' # p = a @ CHR '' '' # b) = (m = a \<and> p = b)"
proof (induction m arbitrary: a)
  case Nil
  then show ?case by (cases a) auto
next
  case (Cons x m)
  then show ?case by (cases a) auto
qed

lemma suffix_key:
  "(m @ s = k) =
   (length s \<le> length k \<and> m = take (length k - length s) k \<and> s = drop (length k - length s) k)"
proof
  assume "m @ s = k"
  then show "length s \<le> length k \<and> m = take (length k - length s) k \<and>
      s = drop (length k - length s) k"
    by auto
next
  assume "length s \<le> length k \<and> m = take (length k - length s) k \<and>
      s = drop (length k - length s) k"
  then have "m @ s = take (length k - length s) k @ drop (length k - length s) k"
    by simp
  then show "m @ s = k"
    by simp
qed

lemma wildcard_key:
  "map_of routes (m @ '' *'') = (if m = ''OPTIONS'' then Some Preflight else None)"
  by (simp add: routes_def suffix_key)

lemma exact_key:
  "map_of routes (m @ '' '' @ p) =
     (if (m, p) = (''OPTIONS'', ''*'') then Some Preflight
      else if (m, p) = (''POST'', ''/register'') then Some Register
      else if (m, p) = (''POST'', ''/login'') then Some Login
      else if (m, p) = (''GET'', ''/users'') then Some Users
      else if (m, p) = (''DELETE'', ''/user'') then Some Delete
      else if (m, p) = (''PUT'', ''/user'') then Some Update
      else if (m, p) = (''GET'', ''/'') then Some Landing
      else None)"
proof -
  have k: "\<And>a b. CHR '' '' \<notin> set a \<Longrightarrow> CHR '' '' \<notin> set b \<Longrightarrow>
      (m @ '' '' @ p = a @ CHR '' '' # b) = (m = a \<and> p = b)"
    using key_split by simp
  have "(m @ '' '' @ p = ''OPTIONS *'') = (m = ''OPTIONS'' \<and> p = ''*'')"
    using k [of "''OPTIONS''" "''*''"] by simp
  moreover have "(m @ '' '' @ p = ''POST /register'') = (m = ''POST'' \<and> p = ''/register'')"
    using k [of "''POST''" "''/register''"] by simp
  moreover have "(m @ '' '' @ p = ''POST /login'') = (m = ''POST'' \<and> p = ''/login'')"
    using k [of "''POST''" "''/login''"] by simp
  moreover have "(m @ '' '' @ p = ''GET /users'') = (m = ''GET'' \<and> p = ''/users'')"
    using k [of "''GET''" "''/users''"] by simp
  moreover have "(m @ '' '' @ p = ''DELETE /user'') = (m = ''DELETE'' \<and> p = ''/user'')"
    using k [of "''DELETE''" "''/user''"] by simp
  moreover have "(m @ '' '' @ p = ''PUT /user'') = (m = ''PUT'' \<and> p = ''/user'')"
    using k [of "''PUT''" "''/user''"] by simp
  moreover have "(m @ '' '' @ p = ''GET /'') = (m = ''GET'' \<and> p = ''/'')"
    using k [of "''GET''" "''/''"] by simp
  ultimately show ?thesis
    unfolding routes_def by (simp del: append.simps)
qed

lemma landing_route: "map_of routes ''GET /'' = Some Landing"
  by (simp add: routes_def)

lemma unrouted_is_landing:
  assumes "m \<noteq> ''OPTIONS''" and
    "(m, p) \<notin> {(''POST'', ''/register''), (''POST'', ''/login''), (''GET'', ''/users''),
               (''DELETE'', ''/user''), (''PUT'', ''/user'')}"
  shows "route m p = Some Landing"
proof -
  have "map_of routes (m @ '' '' @ p) = None \<or> map_of routes (m @ '' '' @ p) = Some Landing"
    using assms unfolding exact_key by (simp del: append.simps)
  moreover have "map_of routes (m @ '' *'') = None"
    using assms unfolding wildcard_key by simp
  ultimately show ?thesis
    unfolding route_def using landing_route by (auto simp del: append.simps)
qed

text \<open>
  Claim C5. The handler of a request is the one registered under the exact key
  "METHOD path" when there is one; otherwise the one registered under "METHOD *" when
  there is one; otherwise the landing page, whatever the method and the path. A request
  whose method is not OPTIONS and whose method and path are none of the five other
  routes is answered by the landing page with status 200, and the store is left as it was.
\<close>

theorem route_precedence:
  "(\<forall>h. map_of routes (m @ '' '' @ p) = Some h \<longrightarrow> route m p = Some h) \<and>
   (map_of routes (m @ '' '' @ p) = None \<longrightarrow>
      (\<forall>h. map_of routes (m @ '' *'') = Some h \<longrightarrow> route m p = Some h) \<and>
      (map_of routes (m @ '' *'') = None \<longrightarrow> route m p = Some Landing)) \<and>
   (m \<noteq> ''OPTIONS'' \<and>
    (m, p) \<notin> {(''POST'', ''/register''), (''POST'', ''/login''), (''GET'', ''/users''),
               (''DELETE'', ''/user''), (''PUT'', ''/user'')} \<longrightarrow>
      route m p = Some Landing \<and>
      server others bc salt now \<lparr> req_method = m, pathname = p, payload = pl \<rparr> d =
        Responds (sendResponse 200 (JStr landing_html) ''text/html'') d \<and>
      status (sendResponse 200 (JStr landing_html) ''text/html'') = 200)"
proof (intro conjI impI allI)
  fix h assume "map_of routes (m @ '' '' @ p) = Some h"
  then show "route m p = Some h"
    unfolding route_def by (simp del: append.simps)
next
  fix h assume "map_of routes (m @ '' '' @ p) = None" and "map_of routes (m @ '' *'') = Some h"
  then show "route m p = Some h"
    unfolding route_def by (simp del: append.simps)
next
  assume "map_of routes (m @ '' '' @ p) = None" and "map_of routes (m @ '' *'') = None"
  then show "route m p = Some Landing"
    unfolding route_def by (simp del: append.simps add: landing_route)
next
  assume "m \<noteq> ''OPTIONS'' \<and>
    (m, p) \<notin> {(''POST'', ''/register''), (''POST'', ''/login''), (''GET'', ''/users''),
               (''DELETE'', ''/user''), (''PUT'', ''/user'')}"
  then have "m \<noteq> ''OPTIONS''" and
    "(m, p) \<notin> {(''POST'', ''/register''), (''POST'', ''/login''), (''GET'', ''/users''),
               (''DELETE'', ''/user''), (''PUT'', ''/user'')}"
    by (rule conjunct1, rule conjunct2)
  then show l: "route m p = Some Landing"
    by (rule unrouted_is_landing)
  then show "server others bc salt now \<lparr> req_method = m, pathname = p, payload = pl \<rparr> d =
        Responds (sendResponse 200 (JStr landing_html) ''text/html'') d"
    by (simp add: server_def GET_root_def)
next
  show "status (sendResponse 200 (JStr landing_html) ''text/html'') = 200"
    by (simp add: sendResponse_def)
qed

text \<open>A PATCH request to a path that no route names gets the landing page.\<close>

theorem route_precedence_witness:
  "''PATCH'' \<noteq> ''OPTIONS'' \<and>
   map_of routes (''PATCH'' @ '' '' @ ''/nowhere'') = None \<and>
   map_of routes (''PATCH'' @ '' *'') = None \<and>
   route ''PATCH'' ''/nowhere'' = Some Landing \<and>
   status_of (server id sample_bcrypt sample_salt ''now''
      \<lparr> req_method = ''PATCH'', pathname = ''/nowhere'', payload = Broken \<rparr> alice_db) = Some 200"
proof -
  have n: "''PATCH'' \<noteq> ''OPTIONS'' \<and>
    (''PATCH'', ''/nowhere'') \<notin> {(''POST'', ''/register''), (''POST'', ''/login''),
      (''GET'', ''/users''), (''DELETE'', ''/user''), (''PUT'', ''/user'')}"
    by simp
  have k: "map_of routes (''PATCH'' @ '' '' @ ''/nowhere'') = None"
    by (simp add: routes_def)
  have w: "map_of routes (''PATCH'' @ '' *'') = None"
    by (simp add: routes_def)
  show ?thesis
    using n k w
      route_precedence [of "''PATCH''" "''/nowhere''" id sample_bcrypt sample_salt "''now''"
        Broken alice_db]
    by (simp del: append.simps)
qed

section \<open>Bodies that do not parse\<close>

text \<open>
  Claim C1, as amended. When the body of a request to POST /register, POST /login,
  DELETE /user or PUT /user is not well-formed JSON, \<open>parseBody\<close> rejects and the
  \<open>catch\<close> block of the handler answers with status 500 and the body
  \<open>{success: false, error: 'Internal server error'}\<close>; the store is left as it was.
\<close>

theorem malformed_body_is_500:
  assumes "payload req = NotJSON"
  shows "POST_register others bc salt now req d = Responds internal_server_error d \<and>
         POST_login bc req d = Responds internal_server_error d \<and>
         DELETE_user req d = Responds internal_server_error d \<and>
         PUT_user req d = Responds internal_server_error d \<and>
         status internal_server_error = 500 \<and>
         body internal_server_error = Stringified (failure ''Internal server error'')"
  using assms
  by (simp add: POST_register_def POST_login_def DELETE_user_def PUT_user_def parseBody_def
      internal_server_error_def sendJson_def sendResponse_def)

theorem malformed_body_is_500_witness:
  "payload \<lparr> req_method = ''PUT'', pathname = ''/user'', payload = NotJSON \<rparr> = NotJSON \<and>
   PUT_user \<lparr> req_method = ''PUT'', pathname = ''/user'', payload = NotJSON \<rparr> alice_db =
     Responds internal_server_error alice_db \<and>
   status internal_server_error = 500"
  using malformed_body_is_500 [of "\<lparr> req_method = ''PUT'', pathname = ''/user'', payload = NotJSON \<rparr>"
      id sample_bcrypt sample_salt "''now''" alice_db]
  by simp

text \<open>
  Claim C1 as stated fails: the answer of POST /register to a body that is not JSON,
  on the empty table, is not a client error.
\<close>

theorem malformed_body_counterexample:
  "\<not> client_error
       (POST_register id sample_bcrypt sample_salt ''2024-01-01 00:00:00''
          \<lparr> req_method = ''POST'', pathname = ''/register'', payload = NotJSON \<rparr> fresh_db)"
  by (simp add: client_error_def POST_register_def parseBody_def internal_server_error_def
      sendJson_def sendResponse_def)

section \<open>An id that is falsy\<close>

text \<open>
  Claim C10. When the body of a DELETE /user or PUT /user request gives an id that is
  falsy in JavaScript (0, the empty string, \<open>false\<close>, \<open>null\<close>, or no id at all), the
  handler answers 400 with its missing-id message (\<open>User ID required\<close> for DELETE,
  \<open>ID and new email required\<close> for PUT), never 404: \<open>!id\<close> decides, before any statement
  is sent to the store, which is left as it was.
\<close>

theorem falsy_id_is_400:
  assumes "payload req = Parses v" and "destructure v = Inr field" and "\<not> truthy (field ''id'')"
  shows "DELETE_user req d = Responds (sendJson 400 (failure ''User ID required'')) d \<and>
         PUT_user req d = Responds (sendJson 400 (failure ''ID and new email required'')) d \<and>
         status (sendJson 400 (failure ''User ID required'')) = 400 \<and>
         status (sendJson 400 (failure ''ID and new email required'')) = 400"
  using assms
  by (simp add: DELETE_user_def PUT_user_def parseBody_def sendJson_def sendResponse_def)

theorem falsy_id_is_400_witness:
  "\<not> truthy (Some (JNum 0)) \<and>
   DELETE_user \<lparr> req_method = ''DELETE'', pathname = ''/user'',
                 payload = Parses (JObj [(''id'', JNum 0), (''email'', JStr ''a@b.c'')]) \<rparr> alice_db =
     Responds (sendJson 400 (failure ''User ID required'')) alice_db \<and>
   PUT_user \<lparr> req_method = ''DELETE'', pathname = ''/user'',
              payload = Parses (JObj [(''id'', JNum 0), (''email'', JStr ''a@b.c'')]) \<rparr> alice_db =
     Responds (sendJson 400 (failure ''ID and new email required'')) alice_db"
  using falsy_id_is_400 [of "\<lparr> req_method = ''DELETE'', pathname = ''/user'',
                 payload = Parses (JObj [(''id'', JNum 0), (''email'', JStr ''a@b.c'')]) \<rparr>"
      "JObj [(''id'', JNum 0), (''email'', JStr ''a@b.c'')]"
      "map_of (rev [(''id'', JNum 0), (''email'', JStr ''a@b.c'')])" alice_db]
  by simp

section \<open>The order of startup\<close>

text \<open>
  Claim C2, as amended. When the connectivity check fails the process logs the failure
  and exits with code 1: it neither creates the table nor listens. When the check
  succeeds, the server listens only after the schema-creation step has finished,
  whether that step succeeded or failed (a failure is logged and startup goes on); so
  the table exists when the server listens if the step succeeded or the table was
  already there.
\<close>

theorem startup_order:
  "(\<not> connects a \<longrightarrow>
      startup a (boot t) = (boot t)\<lparr> trace := [ConnectionFailed, Exit 1], exited := True \<rparr> \<and>
      \<not> listening (startup a (boot t))) \<and>
   (connects a \<longrightarrow>
      trace (startup a (boot t)) =
        [Connected, if creates a then TablesInitialized else InitializationFailed, Listening] \<and>
      listening (startup a (boot t)) \<and>
      \<not> exited (startup a (boot t)) \<and>
      table_exists (startup a (boot t)) = (creates a \<or> t))"
  by (simp add: startup_def testConnection_def initDatabase_def listen_def boot_def)

theorem startup_order_witness:
  "\<not> connects \<lparr> connects = False, creates = True \<rparr> \<and>
   connects \<lparr> connects = True, creates = True \<rparr> \<and>
   trace (startup \<lparr> connects = False, creates = True \<rparr> (boot False)) = [ConnectionFailed, Exit 1] \<and>
   \<not> listening (startup \<lparr> connects = False, creates = True \<rparr> (boot False)) \<and>
   trace (startup \<lparr> connects = True, creates = True \<rparr> (boot False)) =
     [Connected, TablesInitialized, Listening] \<and>
   table_exists (startup \<lparr> connects = True, creates = True \<rparr> (boot False))"
  using startup_order [of "\<lparr> connects = False, creates = True \<rparr>" False]
    startup_order [of "\<lparr> connects = True, creates = True \<rparr>" False]
  by (simp add: boot_def)

text \<open>
  Claim C2 as stated fails: with the store in reach, the table absent and the CREATE
  TABLE statement failing, the server listens and the table does not exist.
\<close>

theorem startup_listens_without_table:
  "listening (startup \<lparr> connects = True, creates = False \<rparr> (boot False)) \<and>
   \<not> table_exists (startup \<lparr> connects = True, creates = False \<rparr> (boot False))"
  by (simp add: startup_def testConnection_def initDatabase_def listen_def boot_def)

section \<open>The store\<close>

text \<open>A key that no two elements share selects at most one of them.\<close>

lemma filter_unique:
  "distinct (map f xs) \<Longrightarrow> u \<in> set xs \<Longrightarrow> filter (\<lambda>x. f x = f u) xs = [u]"
proof (induction xs)
  case Nil
  then show ?case by simp
next
  case (Cons x xs)
  show ?case
  proof (cases "x = u")
    case True
    with Cons.prems have "f u \<notin> f ` set xs" by simp
    then have "\<forall>y \<in> set xs. f y \<noteq> f u" by (metis imageI)
    then have "filter (\<lambda>x. f x = f u) xs = []" by (simp add: filter_empty_conv)
    with True show ?thesis by simp
  next
    case False
    with Cons.prems have "u \<in> set xs" and "f x \<noteq> f u" by auto
    with Cons show ?thesis by simp
  qed
qed

lemma length_filter_split:
  "length (filter P xs) + length (filter (\<lambda>x. \<not> P x) xs) = length xs"
  by (induction xs) auto

lemma ids_positive:
  assumes "wf_db d" and "u \<in> set (rows d)"
  shows "int (u_id u) \<noteq> 0"
  using assms by (auto simp add: wf_db_def)

lemma rows_by_id:
  assumes "wf_db d" and "u \<in> set (rows d)"
  shows "filter (\<lambda>x. int (u_id x) = int (u_id u)) (rows d) = [u]"
  using assms filter_unique [of u_id "rows d" u] by (simp add: wf_db_def)


lemma delete_by_id_hit:
  assumes "wf_db d" and "u \<in> set (rows d)" and "int (u_id u) = i"
  shows "delete_by_id i d = (1, d\<lparr> rows := filter (\<lambda>x. int (u_id x) \<noteq> i) (rows d) \<rparr>)"
  using rows_by_id [OF assms(1,2)] assms(3) by (simp add: delete_by_id_def)

lemma delete_by_id_miss:
  assumes "\<forall>u \<in> set (rows d). int (u_id u) \<noteq> i"
  shows "delete_by_id i d = (0, d)"
  using assms by (simp add: delete_by_id_def)






subsection \<open>The invariant holds from the start and every request keeps it\<close>

lemma wf_fresh_db: "wf_db fresh_db"
  by (simp add: wf_db_def fresh_db_def)


lemma wf_alice_bob_db: "wf_db alice_bob_db"
  by (simp add: wf_db_def alice_bob_db_def alice_db_def fresh_db_def bob_row_def)

lemma insert_user_wf:
  assumes "wf_db d" and "insert_user n h e now d = Inr (i, d')"
  shows "wf_db d'"
proof -
  from assms(2) obtain n' h' e' where
    d': "d' = d\<lparr> rows := rows d @
                         [\<lparr> u_id = next_id d, u_name = n', u_password = h',
                            u_email = e', u_created_at = now \<rparr>],
                       next_id := next_id d + 1 \<rparr>"
    and free: "\<forall>u \<in> set (rows d). \<not> name_eq d (u_name u) n'"
    by (auto simp add: insert_user_def split: sum.splits option.splits if_splits)
  have "next_id d \<notin> u_id ` set (rows d)"
    using assms(1) by (auto simp add: wf_db_def)
  moreover have "collation d n' \<notin> (\<lambda>u. collation d (u_name u)) ` set (rows d)"
    using free by (auto simp add: name_eq_def)
  ultimately show ?thesis
    using assms(1) unfolding d' by (auto simp add: wf_db_def)
qed

lemma delete_by_id_wf:
  assumes "wf_db d" and "delete_by_id i d = (k, d')"
  shows "wf_db d'"
  using assms by (auto simp add: wf_db_def delete_by_id_def distinct_map_filter)

lemma set_email_keeps_ids:
  "map u_id (map (\<lambda>u. if P u then u\<lparr> u_email := a \<rparr> else u) xs) = map u_id xs"
  by (induction xs) auto

lemma set_email_keeps_names:
  "map (\<lambda>u. c (u_name u)) (map (\<lambda>u. if P u then u\<lparr> u_email := a \<rparr> else u) xs) =
   map (\<lambda>u. c (u_name u)) xs"
  by (induction xs) auto

lemma update_email_wf:
  assumes "wf_db d" and "update_email_by_id e i d = Inr (k, d')"
  shows "wf_db d'"
proof -
  from assms(2) have "d' = d \<or>
      (\<exists>a. d' = d\<lparr> rows := map (\<lambda>u. if int (u_id u) = i then u\<lparr> u_email := a \<rparr> else u)
                                (rows d) \<rparr>)"
    by (auto simp add: update_email_by_id_def split: if_splits sum.splits)
  then show ?thesis
  proof
    assume "d' = d"
    with assms(1) show ?thesis by simp
  next
    assume "\<exists>a. d' = d\<lparr> rows := map (\<lambda>u. if int (u_id u) = i then u\<lparr> u_email := a \<rparr> else u)
                                (rows d) \<rparr>"
    then obtain a where
      "d' = d\<lparr> rows := map (\<lambda>u. if int (u_id u) = i then u\<lparr> u_email := a \<rparr> else u) (rows d) \<rparr>"
      by blast
    with assms(1) show ?thesis
      by (auto simp add: wf_db_def set_email_keeps_ids
          set_email_keeps_names [where c = "collation d"] simp del: map_map)
  qed
qed

lemma server_preserves_wf:
  assumes "wf_db d" and "server (\<lambda>x. x) bc salt now req d = Responds r d'"
  shows "wf_db d'"
proof (cases "route (req_method req) (pathname req)")
  case None
  with assms(2) show ?thesis by (simp add: server_def)
next
  case (Some h)
  then have run: "handle h (\<lambda>x. x) bc salt now req d = Responds r d'"
    using assms(2) by (simp add: server_def)
  show ?thesis
  proof (cases h)
    case Preflight
    with run assms(1) show ?thesis by (simp add: OPTIONS_any_def)
  next
    case Register
    with run have "d' = d \<or> (\<exists>n h e i. insert_user n h e now d = Inr (i, d'))"
      by (auto simp add: POST_register_def Let_def
          split: sum.splits option.splits if_splits bool.splits prod.splits)
    with assms(1) show ?thesis using insert_user_wf by blast
  next
    case Login
    with run have "d' = d"
      by (auto simp add: POST_login_def Let_def
          split: sum.splits option.splits if_splits list.splits)
    with assms(1) show ?thesis by simp
  next
    case Users
    with run assms(1) show ?thesis by (simp add: GET_users_def)
  next
    case Delete
    with run have "d' = d \<or> (\<exists>i k. delete_by_id i d = (k, d'))"
      by (auto simp add: DELETE_user_def Let_def
          split: sum.splits option.splits if_splits prod.splits)
    with assms(1) show ?thesis using delete_by_id_wf by blast
  next
    case Update
    with run have "d' = d \<or> (\<exists>e i k. update_email_by_id e i d = Inr (k, d'))"
      by (auto simp add: PUT_user_def Let_def
          split: sum.splits option.splits if_splits prod.splits)
    with assms(1) show ?thesis using update_email_wf by blast
  next
    case Landing
    with run assms(1) show ?thesis by (simp add: GET_root_def)
  qed
qed

section \<open>Registration\<close>










text \<open>
  Claim C3, as amended. When the SELECT of the register handler finds no row for the
  name but its INSERT fails with the duplicate-key error of the UNIQUE index (another
  registration of the name has been inserted in between), the \<open>catch\<close> block answers
  with status 500 and \<open>{success: false, error: 'Internal server error'}\<close>.
\<close>

theorem register_race_is_500:
  assumes "payload req = Parses v" and "destructure v = Inr field"
    and "field ''name'' = Some (JStr n)" and "n \<noteq> []"
    and "field ''password'' = Some (JStr p)" and "6 \<le> length p"
    and "select_id_by_name n d = []"
    and "bind_nullable_text (or_null (field ''email'')) = Some e"
    and "insert_user n (bhash bc salt p) e now (others d) = Inl DupEntry"
  shows "POST_register others bc salt now req d = Responds internal_server_error (others d) \<and>
         status internal_server_error = 500"
proof -
  have "p \<noteq> []" using assms(6) by auto
  with assms show ?thesis
    by (simp add: POST_register_def parseBody_def internal_server_error_def sendJson_def
        sendResponse_def)
qed

theorem register_race_is_500_witness:
  "select_id_by_name ''alice'' fresh_db = [] \<and>
   insert_user ''alice'' (bhash sample_bcrypt sample_salt ''secret1'') None
     ''2024-01-01 00:00:01'' (rival fresh_db) = Inl DupEntry \<and>
   POST_register rival sample_bcrypt sample_salt ''2024-01-01 00:00:01''
     (register_request ''alice'' ''secret1'') fresh_db =
     Responds internal_server_error (rival fresh_db) \<and>
   status internal_server_error = 500"
proof -
  have h1: "payload (register_request ''alice'' ''secret1'') =
      Parses (JObj [(''name'', JStr ''alice''), (''password'', JStr ''secret1'')])"
    by (simp add: register_request_def)
  have h2: "destructure (JObj [(''name'', JStr ''alice''), (''password'', JStr ''secret1'')]) =
      Inr (map_of (rev [(''name'', JStr ''alice''), (''password'', JStr ''secret1'')]))"
    by simp
  have h3: "map_of (rev [(''name'', JStr ''alice''), (''password'', JStr ''secret1'')]) ''name'' =
      Some (JStr ''alice'')"
    by simp
  have h4: "''alice'' \<noteq> []" by simp
  have h5: "map_of (rev [(''name'', JStr ''alice''), (''password'', JStr ''secret1'')]) ''password'' =
      Some (JStr ''secret1'')"
    by simp
  have h6: "6 \<le> length ''secret1''" by simp
  have h7: "select_id_by_name ''alice'' fresh_db = []"
    by (simp add: select_id_by_name_def fresh_db_def)
  have h8: "bind_nullable_text
      (or_null (map_of (rev [(''name'', JStr ''alice''), (''password'', JStr ''secret1'')]) ''email'')) =
      Some None"
    by simp
  have h9: "insert_user ''alice'' (bhash sample_bcrypt sample_salt ''secret1'') None
     ''2024-01-01 00:00:01'' (rival fresh_db) = Inl DupEntry"
    by (simp add: rival_def insert_user_def varchar_def fresh_db_def sample_bcrypt_def
        sample_salt_def name_eq_def)
  show ?thesis
    using h7 h9
      register_race_is_500 [where field = "map_of (rev [(''name'', JStr ''alice''), (''password'', JStr ''secret1'')])"
          and others = rival and d = fresh_db,
        OF h1 h2 h3 h4 h5 h6 h7 h8 h9]
    by simp
qed

text \<open>
  Claim C3 as stated fails: on the empty table, with a rival registration of \<open>alice\<close>
  inserted between the two statements, the SELECT finds nothing, the INSERT fails with
  the duplicate-key error, and the status is 500, not 409.
\<close>

theorem register_race_counterexample:
  "select_id_by_name ''alice'' fresh_db = [] \<and>
   insert_user ''alice'' (bhash sample_bcrypt sample_salt ''secret1'') None
     ''2024-01-01 00:00:01'' (rival fresh_db) = Inl DupEntry \<and>
   status_of (POST_register rival sample_bcrypt sample_salt ''2024-01-01 00:00:01''
     (register_request ''alice'' ''secret1'') fresh_db) = Some 500"
  by (simp add: rival_def POST_register_def parseBody_def register_request_def
      select_id_by_name_def insert_user_def varchar_def fresh_db_def sample_bcrypt_def
      sample_salt_def name_eq_def internal_server_error_def sendJson_def sendResponse_def)

section \<open>The scenario of the specification\<close>

lemma route_register: "route ''POST'' ''/register'' = Some Register"
  by (simp add: route_def routes_def)

lemma route_login: "route ''POST'' ''/login'' = Some Login"
  by (simp add: route_def routes_def)

text \<open>
  Claim C4, as amended. On an empty table whose counter is at 1, with a bcrypt that
  accepts \<open>secret1\<close> and rejects \<open>wrong\<close> against the hash of \<open>secret1\<close>: registering
  \<open>{name: "alice", password: "secret1"}\<close> answers 201 with the body
  \<open>{success: true, message: "Account created", userId: 1}\<close>; then logging in with the
  password \<open>wrong\<close> answers 401 with \<open>{success: false, error: "Invalid credentials"}\<close>,
  and logging in with \<open>secret1\<close> answers 200 with
  \<open>{success: true, message: "Login successful", userId: 1}\<close>.
\<close>

theorem alice_scenario:
  assumes "rows d = []" and "next_id d = 1"
    and "length (bhash bc salt ''secret1'') \<le> 255"
    and "bcompare bc ''secret1'' (bhash bc salt ''secret1'')"
    and "\<not> bcompare bc ''wrong'' (bhash bc salt ''secret1'')"
  shows
    "(let d1 = d\<lparr> rows := [\<lparr> u_id = 1, u_name = ''alice'',
                              u_password = bhash bc salt ''secret1'',
                              u_email = None, u_created_at = now \<rparr>],
                  next_id := 2 \<rparr>
      in server (\<lambda>x. x) bc salt now (register_request ''alice'' ''secret1'') d =
           Responds
             (sendJson 201
                (JObj [(''success'', JBool True), (''message'', JStr ''Account created''),
                       (''userId'', JNum 1)]))
             d1 \<and>
         server others2 bc salt2 now2 (login_request ''alice'' ''wrong'') d1 =
           Responds (sendJson 401 (failure ''Invalid credentials'')) d1 \<and>
         server others3 bc salt3 now3 (login_request ''alice'' ''secret1'') d1 =
           Responds
             (sendJson 200
                (JObj [(''success'', JBool True), (''message'', JStr ''Login successful''),
                       (''userId'', JNum 1)]))
             d1)"
proof -
  let ?d1 = "d\<lparr> rows := [\<lparr> u_id = 1, u_name = ''alice'',
                              u_password = bhash bc salt ''secret1'',
                              u_email = None, u_created_at = now \<rparr>],
                  next_id := 2 \<rparr>"
  have ins: "insert_user ''alice'' (bhash bc salt ''secret1'') None now d = Inr (1, ?d1)"
    using assms(1,2,3) by (simp add: insert_user_def varchar_def)
  have sel: "select_id_by_name ''alice'' d = []"
    using assms(1) by (simp add: select_id_by_name_def)
  have reg: "POST_register (\<lambda>x. x) bc salt now (register_request ''alice'' ''secret1'') d =
           Responds
             (sendJson 201
                (JObj [(''success'', JBool True), (''message'', JStr ''Account created''),
                       (''userId'', JNum 1)]))
             ?d1"
    using ins sel by (simp add: POST_register_def parseBody_def register_request_def)
  have sel1: "select_id_password_by_name ''alice'' ?d1 = [(1, bhash bc salt ''secret1'')]"
    by (simp add: select_id_password_by_name_def name_eq_def)
  have wrong: "POST_login bc (login_request ''alice'' ''wrong'') ?d1 =
           Responds (sendJson 401 (failure ''Invalid credentials'')) ?d1"
    using sel1 assms(5) by (simp add: POST_login_def parseBody_def login_request_def)
  have right: "POST_login bc (login_request ''alice'' ''secret1'') ?d1 =
           Responds
             (sendJson 200
                (JObj [(''success'', JBool True), (''message'', JStr ''Login successful''),
                       (''userId'', JNum 1)]))
             ?d1"
    using sel1 assms(4) by (simp add: POST_login_def parseBody_def login_request_def)
  have r1: "server (\<lambda>x. x) bc salt now (register_request ''alice'' ''secret1'') d =
      POST_register (\<lambda>x. x) bc salt now (register_request ''alice'' ''secret1'') d"
    by (simp add: server_def register_request_def route_register)
  have r2: "\<And>p ot s n. server ot bc s n (login_request ''alice'' p) ?d1 =
      POST_login bc (login_request ''alice'' p) ?d1"
    by (simp add: server_def login_request_def route_login)
  show ?thesis
    unfolding Let_def r1 r2 using reg wrong right by (intro conjI)
qed

theorem alice_scenario_witness:
  "rows fresh_db = [] \<and> next_id fresh_db = 1 \<and>
   length (bhash sample_bcrypt sample_salt ''secret1'') \<le> 255 \<and>
   bcompare sample_bcrypt ''secret1'' (bhash sample_bcrypt sample_salt ''secret1'') \<and>
   \<not> bcompare sample_bcrypt ''wrong'' (bhash sample_bcrypt sample_salt ''secret1'') \<and>
   server (\<lambda>x. x) sample_bcrypt sample_salt ''2024-01-01 00:00:00''
       (register_request ''alice'' ''secret1'') fresh_db =
     Responds
       (sendJson 201
          (JObj [(''success'', JBool True), (''message'', JStr ''Account created''),
                 (''userId'', JNum 1)]))
       alice_db \<and>
   server (\<lambda>x. x) sample_bcrypt sample_salt ''2024-01-01 00:00:01''
       (login_request ''alice'' ''wrong'') alice_db =
     Responds (sendJson 401 (failure ''Invalid credentials'')) alice_db \<and>
   server (\<lambda>x. x) sample_bcrypt sample_salt ''2024-01-01 00:00:02''
       (login_request ''alice'' ''secret1'') alice_db =
     Responds
       (sendJson 200
          (JObj [(''success'', JBool True), (''message'', JStr ''Login successful''),
                 (''userId'', JNum 1)]))
       alice_db"
proof -
  have h1: "rows fresh_db = []" and h2: "next_id fresh_db = 1"
    by (simp_all add: fresh_db_def)
  have h3: "length (bhash sample_bcrypt sample_salt ''secret1'') \<le> 255"
    by (simp add: sample_bcrypt_def sample_salt_def)
  have h4: "bcompare sample_bcrypt ''secret1'' (bhash sample_bcrypt sample_salt ''secret1'')"
    by (simp add: sample_bcrypt_def sample_salt_def)
  have h5: "\<not> bcompare sample_bcrypt ''wrong'' (bhash sample_bcrypt sample_salt ''secret1'')"
    by (simp add: sample_bcrypt_def sample_salt_def)
  show ?thesis
    using h1 h2 h3 h4 h5
      alice_scenario [OF h1 h2 h3 h4 h5, of "''2024-01-01 00:00:00''"
        "\<lambda>x. x" sample_salt "''2024-01-01 00:00:01''"
        "\<lambda>x. x" sample_salt "''2024-01-01 00:00:02''"]
    by (simp add: Let_def alice_db_def)
qed

text \<open>
  Claim C4 as stated fails: the body of the 201 response is not
  \<open>{success: true, id: 1}\<close>.
\<close>

theorem alice_scenario_counterexample:
  "status_of (server id sample_bcrypt sample_salt ''2024-01-01 00:00:00''
       (register_request ''alice'' ''secret1'') fresh_db) = Some 201 \<and>
   body_of (server id sample_bcrypt sample_salt ''2024-01-01 00:00:00''
       (register_request ''alice'' ''secret1'') fresh_db) \<noteq>
     Some (Stringified (JObj [(''success'', JBool True), (''id'', JNum 1)]))"
  by (simp add: server_def route_register register_request_def POST_register_def parseBody_def
      select_id_by_name_def insert_user_def varchar_def fresh_db_def sample_bcrypt_def
      sample_salt_def sendJson_def sendResponse_def)

section \<open>Login\<close>




section \<open>Deleting a user\<close>

text \<open>
  Claim C8, as amended. For a delete request whose body is a JSON value other than
  \<open>null\<close>: when the id is falsy (absent, \<open>null\<close>, \<open>false\<close>, 0 or the empty string) the
  response is 400 and the store is left as it was; when the id is a number other than 0
  and no row has it the response is 404 and the store is left as it was; when the id is
  a number and a row has it the response is 200, the store afterwards has the rows with
  another id, unchanged and in their order, which is one row less, and GET /users on it
  lists no row with that id.
\<close>

theorem delete_removes_one_row:
  assumes "payload req = Parses v" and "destructure v = Inr field" and "wf_db d"
  shows
    "(\<not> truthy (field ''id'') \<longrightarrow>
        DELETE_user req d = Responds (sendJson 400 (failure ''User ID required'')) d) \<and>
     (field ''id'' = Some (JNum i) \<and> i \<noteq> 0 \<and>
      (\<forall>u \<in> set (rows d). int (u_id u) \<noteq> i) \<longrightarrow>
        DELETE_user req d = Responds (sendJson 404 (failure ''User not found'')) d) \<and>
     (field ''id'' = Some (JNum i) \<and> (\<exists>u \<in> set (rows d). int (u_id u) = i) \<longrightarrow>
        DELETE_user req d =
          Responds
            (sendJson 200 (JObj [(''success'', JBool True), (''message'', JStr ''User deleted'')]))
            (d\<lparr> rows := filter (\<lambda>u. int (u_id u) \<noteq> i) (rows d) \<rparr>) \<and>
        length (filter (\<lambda>u. int (u_id u) \<noteq> i) (rows d)) + 1 = length (rows d) \<and>
        GET_users (d\<lparr> rows := filter (\<lambda>u. int (u_id u) \<noteq> i) (rows d) \<rparr>) =
          Responds
            (sendJson 200
               (JObj [(''success'', JBool True),
                      (''users'', JArr (map row_json (filter (\<lambda>u. int (u_id u) \<noteq> i) (rows d))))]))
            (d\<lparr> rows := filter (\<lambda>u. int (u_id u) \<noteq> i) (rows d) \<rparr>) \<and>
        (\<forall>u \<in> set (filter (\<lambda>u. int (u_id u) \<noteq> i) (rows d)). int (u_id u) \<noteq> i))"
proof (intro conjI impI)
  assume "\<not> truthy (field ''id'')"
  with assms(1,2)
  show "DELETE_user req d = Responds (sendJson 400 (failure ''User ID required'')) d"
    by (simp add: DELETE_user_def parseBody_def)
next
  assume a: "field ''id'' = Some (JNum i) \<and> i \<noteq> 0 \<and>
      (\<forall>u \<in> set (rows d). int (u_id u) \<noteq> i)"
  then have "delete_by_id i d = (0, d)" by (simp add: delete_by_id_miss)
  with assms(1,2) a show "DELETE_user req d = Responds (sendJson 404 (failure ''User not found'')) d"
    by (simp add: DELETE_user_def parseBody_def)
next
  assume a: "field ''id'' = Some (JNum i) \<and> (\<exists>u \<in> set (rows d). int (u_id u) = i)"
  then obtain u where u: "u \<in> set (rows d)" "int (u_id u) = i" by blast
  have nz: "i \<noteq> 0"
    using ids_positive [OF assms(3) u(1)] u(2) by simp
  have del: "delete_by_id i d = (1, d\<lparr> rows := filter (\<lambda>x. int (u_id x) \<noteq> i) (rows d) \<rparr>)"
    using assms(3) u by (rule delete_by_id_hit)
  with assms(1,2) a nz show "DELETE_user req d =
          Responds
            (sendJson 200 (JObj [(''success'', JBool True), (''message'', JStr ''User deleted'')]))
            (d\<lparr> rows := filter (\<lambda>u. int (u_id u) \<noteq> i) (rows d) \<rparr>)"
    by (simp add: DELETE_user_def parseBody_def)
  have "length (filter (\<lambda>x. int (u_id x) = i) (rows d)) = 1"
    using rows_by_id [OF assms(3) u(1)] u(2) by simp
  then show "length (filter (\<lambda>u. int (u_id u) \<noteq> i) (rows d)) + 1 = length (rows d)"
    using length_filter_split [of "\<lambda>x. int (u_id x) = i" "rows d"] by simp
next
  show "GET_users (d\<lparr> rows := filter (\<lambda>u. int (u_id u) \<noteq> i) (rows d) \<rparr>) =
          Responds
            (sendJson 200
               (JObj [(''success'', JBool True),
                      (''users'', JArr (map row_json (filter (\<lambda>u. int (u_id u) \<noteq> i) (rows d))))]))
            (d\<lparr> rows := filter (\<lambda>u. int (u_id u) \<noteq> i) (rows d) \<rparr>)"
    by (simp add: GET_users_def select_users_def)
next
  show "\<forall>u \<in> set (filter (\<lambda>u. int (u_id u) \<noteq> i) (rows d)). int (u_id u) \<noteq> i"
    by simp
qed

theorem delete_removes_one_row_witness:
  "map u_id (rows alice_bob_db) = [1, 2] \<and>
   DELETE_user (delete_request 1) alice_bob_db =
     Responds
       (sendJson 200 (JObj [(''success'', JBool True), (''message'', JStr ''User deleted'')]))
       (alice_bob_db\<lparr> rows := [bob_row] \<rparr>) \<and>
   GET_users (alice_bob_db\<lparr> rows := [bob_row] \<rparr>) =
     Responds
       (sendJson 200 (JObj [(''success'', JBool True), (''users'', JArr [row_json bob_row])]))
       (alice_bob_db\<lparr> rows := [bob_row] \<rparr>) \<and>
   DELETE_user (delete_request 7) alice_bob_db =
     Responds (sendJson 404 (failure ''User not found'')) alice_bob_db \<and>
   DELETE_user (delete_request 0) alice_bob_db =
     Responds (sendJson 400 (failure ''User ID required'')) alice_bob_db"
proof -
  have p: "\<And>i. payload (delete_request i) = Parses (JObj [(''id'', JNum i)])"
    by (simp add: delete_request_def)
  have f: "\<And>i. destructure (JObj [(''id'', JNum i)]) = Inr (map_of (rev [(''id'', JNum i)]))"
    by simp
  have hit: "\<exists>u \<in> set (rows alice_bob_db). int (u_id u) = 1"
    by (simp add: alice_bob_db_def alice_db_def)
  have miss: "\<forall>u \<in> set (rows alice_bob_db). int (u_id u) \<noteq> 7"
    by (simp add: alice_bob_db_def alice_db_def bob_row_def)
  have rest: "filter (\<lambda>u. int (u_id u) \<noteq> 1) (rows alice_bob_db) = [bob_row]"
    by (simp add: alice_bob_db_def alice_db_def bob_row_def)
  have ids: "map u_id (rows alice_bob_db) = [1, 2]"
    by (simp add: alice_bob_db_def alice_db_def bob_row_def)
  show ?thesis
    using ids hit miss rest
      delete_removes_one_row [OF p [of 1] f [of 1] wf_alice_bob_db, of 1]
      delete_removes_one_row [OF p [of 7] f [of 7] wf_alice_bob_db, of 7]
      delete_removes_one_row [OF p [of 0] f [of 0] wf_alice_bob_db, of 0]
    by simp
qed

text \<open>
  Claim C8 as stated fails: the id 0 is present in the body and no row has it (the ids
  of the table are 1 and 2), and the response is 400, not 404.
\<close>

theorem delete_zero_id_counterexample:
  "map u_id (rows alice_bob_db) = [1, 2] \<and>
   status_of (DELETE_user (delete_request 0) alice_bob_db) = Some 400"
  by (simp add: DELETE_user_def parseBody_def delete_request_def alice_bob_db_def alice_db_def
      bob_row_def sendJson_def sendResponse_def)

section \<open>Updating an email\<close>




end
